theory Spec2Isabelle
  imports Complex_Main
begin

section \<open>The k-means loop \<open>find_clusters\<close> of the notebook\<close>

text \<open>
  The notebook \<^verbatim>\<open>k-means_clustering_GMM\<close> defines one function of its own:
  \<^verbatim>\<open>
  def find_clusters(X, n_clusters, rseed=2):
      # 1. Randomly choose clusters
      rng = np.random.RandomState(rseed)
      i = rng.permutation(X.shape[0])[:n_clusters]
      centers = X[i]

      while True:
          # 2a. Assign labels based on closest center
          labels = pairwise_distances_argmin(X, centers)

          # 2b. Find new centers from means of points
          new_centers = np.array([X[labels == i].mean(0)
                                  for i in range(n_clusters)])

          # 2c. Check for convergence
          if np.all(centers == new_centers):
              break
          centers = new_centers

      return centers, labels
  \<close>
  A two-dimensional array is a list of rows. The entries are the values a double can
  take, with the rounding of the arithmetic left out: a finite entry is a rational
  number and sums, quotients and squared distances of finite entries are exact. The
  three values that are not finite are kept, because the code produces one of them (the
  mean of an empty selection) and compares with \<open>==\<close>. The number of clusters is a
  natural number, the seed an integer; the default \<open>rseed=2\<close> is the value a caller
  passes who names no seed.
\<close>

subsection \<open>Array entries\<close>

datatype fl = Fin rat | PInf | NInf | NaN

fun isfinite :: "fl \<Rightarrow> bool" where
  "isfinite (Fin a) = True"
| "isfinite PInf = False"
| "isfinite NInf = False"
| "isfinite NaN = False"

text \<open>Addition: NaN absorbs, opposite infinities give NaN.\<close>

fun fadd :: "fl \<Rightarrow> fl \<Rightarrow> fl" where
  "fadd (Fin a) (Fin b) = Fin (a + b)"
| "fadd NaN y = NaN"
| "fadd x NaN = NaN"
| "fadd PInf NInf = NaN"
| "fadd NInf PInf = NaN"
| "fadd PInf y = PInf"
| "fadd x PInf = PInf"
| "fadd NInf y = NInf"
| "fadd x NInf = NInf"

text \<open>Division of a sum by a number of rows; \<open>0 / 0\<close> is NaN.\<close>

fun fdiv_count :: "fl \<Rightarrow> nat \<Rightarrow> fl" where
  "fdiv_count (Fin a) n =
     (if n = 0 then (if a = 0 then NaN else if 0 < a then PInf else NInf)
      else Fin (a / of_nat n))"
| "fdiv_count PInf n = PInf"
| "fdiv_count NInf n = NInf"
| "fdiv_count NaN n = NaN"

text \<open>The comparison \<open>==\<close> on entries: NaN equals nothing, itself included.\<close>

fun feq :: "fl \<Rightarrow> fl \<Rightarrow> bool" where
  "feq (Fin a) (Fin b) = (a = b)"
| "feq PInf PInf = True"
| "feq NInf NInf = True"
| "feq x y = False"

text \<open>The number a finite entry stands for (used on validated arrays only).\<close>

fun val :: "fl \<Rightarrow> rat" where
  "val (Fin a) = a"
| "val PInf = 0"
| "val NInf = 0"
| "val NaN = 0"

subsection \<open>Arrays\<close>

type_synonym row = "fl list"
type_synonym array = "row list"

datatype error = ValueError | IndexError

text \<open>\<^verbatim>\<open>X.shape[1]\<close>, read off the first row.\<close>

definition ncols :: "array \<Rightarrow> nat" where
  "ncols A = (case A of [] \<Rightarrow> 0 | r # _ \<Rightarrow> length r)"

text \<open>\<^verbatim>\<open>X[i]\<close> for an index array \<open>i\<close>: the rows at these indices, copied.\<close>

definition index_rows :: "array \<Rightarrow> nat list \<Rightarrow> error + array" where
  "index_rows X i =
     (if list_all (\<lambda>j. j < length X) i then Inr (map (\<lambda>j. X ! j) i) else Inl IndexError)"

text \<open>\<^verbatim>\<open>X[labels == k]\<close>: the rows whose label is \<open>k\<close>, in order.\<close>

definition select_rows :: "array \<Rightarrow> nat list \<Rightarrow> nat \<Rightarrow> array" where
  "select_rows X labels k = map fst (filter (\<lambda>(x, l). l = k) (zip X labels))"

definition fsum :: "fl list \<Rightarrow> fl" where
  "fsum vs = foldr fadd vs (Fin 0)"

definition mean :: "fl list \<Rightarrow> fl" where
  "mean vs = fdiv_count (fsum vs) (length vs)"

text \<open>\<^verbatim>\<open>A.mean(0)\<close> for an array of \<open>d\<close> columns: the mean of each column. Of an
  array without rows it is \<open>d\<close> times NaN.\<close>

definition mean0 :: "nat \<Rightarrow> array \<Rightarrow> row" where
  "mean0 d A = map (\<lambda>j. mean (map (\<lambda>r. r ! j) A)) [0..<d]"

definition new_centers :: "array \<Rightarrow> nat list \<Rightarrow> nat \<Rightarrow> array" where
  "new_centers X labels n_clusters =
     map (\<lambda>k. mean0 (ncols X) (select_rows X labels k)) [0..<n_clusters]"

text \<open>\<^verbatim>\<open>np.all(a == b)\<close> on two arrays of the same number of columns. The comparison
  is by entry; a single row is broadcast against the rows of the other array; where the
  numbers of rows do not fit, the numpy of the notebook gives \<open>False\<close>.\<close>

definition row_eq :: "row \<Rightarrow> row \<Rightarrow> bool" where
  "row_eq r s = list_all2 feq r s"

definition all_equal :: "array \<Rightarrow> array \<Rightarrow> bool" where
  "all_equal a b =
     (if length a = length b then list_all2 row_eq a b
      else if length a = 1 then list_all (row_eq (hd a)) b
      else if length b = 1 then list_all (\<lambda>r. row_eq r (hd b)) a
      else False)"

subsection \<open>The library's nearest-centre assignment\<close>

text \<open>
  \<^verbatim>\<open>sklearn.metrics.pairwise_distances_argmin(X, Y)\<close> is not code of the notebook. It is
  modelled by its documented behaviour: both arrays are validated first (at least one
  row, at least one column, every entry finite, the same number of columns), a failed
  validation raises \<^verbatim>\<open>ValueError\<close>; otherwise row \<open>x\<close> of \<open>X\<close> gets the index of the
  row of \<open>Y\<close> at the least Euclidean distance, the first such index.
\<close>

definition check_array :: "array \<Rightarrow> bool" where
  "check_array A \<longleftrightarrow> A \<noteq> [] \<and> ncols A \<noteq> 0 \<and> list_all (list_all isfinite) A"

definition sqdist :: "row \<Rightarrow> row \<Rightarrow> rat" where
  "sqdist x y = (\<Sum>(a, b)\<leftarrow>zip x y. (val a - val b)\<^sup>2)"


text \<open>\<^verbatim>\<open>argmin\<close>: the first position of the least element.\<close>

fun argmin :: "rat list \<Rightarrow> nat" where
  "argmin [] = 0"
| "argmin [d] = 0"
| "argmin (d # ds) = (let j = argmin ds in if d \<le> ds ! j then 0 else Suc j)"

definition pairwise_distances_argmin :: "array \<Rightarrow> array \<Rightarrow> error + nat list" where
  "pairwise_distances_argmin X Y =
     (if check_array X \<and> check_array Y \<and> ncols X = ncols Y
      then Inr (map (\<lambda>x. argmin (map (sqdist x) Y)) X)
      else Inl ValueError)"

subsection \<open>The loop and the function\<close>

text \<open>
  The \<^verbatim>\<open>while True\<close> loop, with the number of passes it may make as fuel: \<open>None\<close> says
  that the loop is still running after that many passes. A pass ends the run with the
  library's error, or returns the centres it started from and the labels it computed,
  or goes on with the new centres.
\<close>

fun loop :: "nat \<Rightarrow> array \<Rightarrow> nat \<Rightarrow> array \<Rightarrow> (error + array \<times> nat list) option" where
  "loop 0 X n_clusters centers = None"
| "loop (Suc n) X n_clusters centers =
     (case pairwise_distances_argmin X centers of
        Inl e \<Rightarrow> Some (Inl e)
      | Inr labels \<Rightarrow>
          (let new = new_centers X labels n_clusters
           in if all_equal centers new then Some (Inr (centers, labels))
              else loop n X n_clusters new))"

text \<open>
  \<^verbatim>\<open>np.random.RandomState(rseed).permutation(n)\<close> belongs to numpy; it is the
  parameter \<open>permutation\<close>, a function of the seed and of \<open>n\<close>. The generator is made
  for the call and used once, so nothing of it outlives the call.
\<close>

definition initial_centers :: "(int \<Rightarrow> nat \<Rightarrow> nat list) \<Rightarrow> array \<Rightarrow> nat \<Rightarrow> int \<Rightarrow> error + array" where
  "initial_centers permutation X n_clusters rseed =
     index_rows X (take n_clusters (permutation rseed (length X)))"

definition find_clusters ::
  "(int \<Rightarrow> nat \<Rightarrow> nat list) \<Rightarrow> nat \<Rightarrow> array \<Rightarrow> nat \<Rightarrow> int \<Rightarrow> (error + array \<times> nat list) option" where
  "find_clusters permutation fuel X n_clusters rseed =
     (case initial_centers permutation X n_clusters rseed of
        Inl e \<Rightarrow> Some (Inl e)
      | Inr centers \<Rightarrow> loop fuel X n_clusters centers)"

subsection \<open>Well-formed arguments\<close>

text \<open>A numpy array has rows of one length.\<close>

definition rectangular :: "array \<Rightarrow> bool" where
  "rectangular A \<longleftrightarrow> list_all (\<lambda>r. length r = ncols A) A"

text \<open>What numpy promises of \<^verbatim>\<open>permutation(n)\<close>: the numbers below \<open>n\<close>, each once.\<close>

definition is_permutation :: "nat list \<Rightarrow> nat \<Rightarrow> bool" where
  "is_permutation p n \<longleftrightarrow> distinct p \<and> set p = set [0..<n]"

text \<open>For the worked examples: the permutations that numpy's generator gives for the
  seed 2, the default of \<open>rseed\<close>, and two to five points (for other arguments, which no
  example uses, the identity).\<close>

definition example_permutation :: "int \<Rightarrow> nat \<Rightarrow> nat list" where
  "example_permutation rseed n =
     (if rseed = 2 \<and> n = 2 then [1, 0]
      else if rseed = 2 \<and> n = 3 then [2, 1, 0]
      else if rseed = 2 \<and> n = 4 then [2, 3, 1, 0]
      else if rseed = 2 \<and> n = 5 then [2, 4, 1, 3, 0]
      else [0..<n])"

text \<open>The centres a pass starts from: \<open>pass_centers t\<close> is \<open>Some\<close> of the centres at the
  start of pass \<open>t\<close> (the first pass is pass 0), and \<open>None\<close> when the loop has ended
  before.\<close>

fun pass_centers :: "nat \<Rightarrow> array \<Rightarrow> nat \<Rightarrow> array \<Rightarrow> array option" where
  "pass_centers 0 X n_clusters centers = Some centers"
| "pass_centers (Suc t) X n_clusters centers =
     (case pairwise_distances_argmin X centers of
        Inl e \<Rightarrow> None
      | Inr labels \<Rightarrow>
          (let new = new_centers X labels n_clusters
           in if all_equal centers new then None
              else pass_centers t X n_clusters new))"




section \<open>Basic facts\<close>



lemma feq_NaN_right: "\<not> feq x NaN"
  by (cases x) simp_all



lemma is_permutation_length: "is_permutation p n \<Longrightarrow> length p = n"
  unfolding is_permutation_def using distinct_card [of p] by simp

lemma is_permutation_bound: "is_permutation p n \<Longrightarrow> j \<in> set p \<Longrightarrow> j < n"
  unfolding is_permutation_def by simp

lemma index_rows_permutation:
  assumes "is_permutation p (length X)"
  shows "index_rows X (take k p) = Inr (map (\<lambda>j. X ! j) (take k p))"
proof -
  have "\<forall>j\<in>set (take k p). j < length X"
    using assms is_permutation_bound in_set_takeD by fast
  then show ?thesis by (simp add: index_rows_def list_all_iff)
qed

lemma pairwise_distances_argmin_Inr:
  "pairwise_distances_argmin X Y = Inr L \<longleftrightarrow>
     check_array X \<and> check_array Y \<and> ncols X = ncols Y
     \<and> L = map (\<lambda>x. argmin (map (sqdist x) Y)) X"
  by (auto simp: pairwise_distances_argmin_def)


lemma argmin_less: "ds \<noteq> [] \<Longrightarrow> argmin ds < length ds"
  by (induction ds rule: argmin.induct) (auto simp: Let_def)




lemma labels_bound:
  assumes "pairwise_distances_argmin X Y = Inr L" and "l \<in> set L"
  shows "l < length Y"
proof -
  from assms(1) have Y: "Y \<noteq> []" and L: "L = map (\<lambda>x. argmin (map (sqdist x) Y)) X"
    by (auto simp: pairwise_distances_argmin_Inr check_array_def)
  from assms(2) L obtain x where "l = argmin (map (sqdist x) Y)" by auto
  then show ?thesis using argmin_less [of "map (sqdist x) Y"] Y by simp
qed

subsection \<open>The loop\<close>

lemma loop_fuel_mono: "loop n X K c = Some r \<Longrightarrow> loop (n + m) X K c = Some r"
proof (induction n arbitrary: c)
  case 0
  then show ?case by simp
next
  case (Suc n)
  then show ?case
    by (auto simp: Let_def split: sum.splits if_splits)
qed

lemma loop_deterministic:
  assumes "loop n X K c = Some r" and "loop m X K c = Some r'"
  shows "r = r'"
proof -
  have "loop (n + m) X K c = Some r" using assms(1) by (rule loop_fuel_mono)
  moreover have "loop (m + n) X K c = Some r'" using assms(2) by (rule loop_fuel_mono)
  ultimately show ?thesis by (simp add: add.commute)
qed


lemma loop_after_passes:
  "pass_centers t X K c = Some c' \<Longrightarrow> loop (t + n) X K c = loop n X K c'"
proof (induction t arbitrary: c)
  case 0
  then show ?case by simp
next
  case (Suc t)
  then show ?case
    by (auto simp: Let_def split: sum.splits if_splits)
qed

lemma new_centers_length [simp]: "length (new_centers X L K) = K"
  by (simp add: new_centers_def)

lemma new_centers_nth:
  "k < K \<Longrightarrow> new_centers X L K ! k = mean0 (ncols X) (select_rows X L k)"
  by (simp add: new_centers_def)

lemma mean0_length [simp]: "length (mean0 d A) = d"
  by (simp add: mean0_def)

lemma mean0_empty: "mean0 d [] = replicate d NaN"
  by (simp add: mean0_def mean_def fsum_def map_replicate_const)

lemma select_rows_empty: "k \<notin> set L \<Longrightarrow> select_rows X L k = []"
  by (auto simp: select_rows_def filter_empty_conv dest: set_zip_rightD)


lemma row_eq_NaN: "0 < d \<Longrightarrow> \<not> row_eq r (replicate d NaN)"
  by (cases d) (auto simp: row_eq_def list_all2_Cons2 feq_NaN_right)


lemma nonfinite_not_checked:
  "r \<in> set X \<Longrightarrow> v \<in> set r \<Longrightarrow> \<not> isfinite v \<Longrightarrow> \<not> check_array X"
  by (auto simp: check_array_def list_all_iff)

lemma empty_cluster_NaN:
  "k < K \<Longrightarrow> k \<notin> set L \<Longrightarrow> new_centers X L K ! k = replicate (ncols X) NaN"
  by (simp add: new_centers_nth select_rows_empty mean0_empty)

lemma empty_cluster_not_equal:
  assumes "pairwise_distances_argmin X c = Inr L" and "k < K" and "k \<notin> set L"
  shows "\<not> all_equal c (new_centers X L K)"
proof
  let ?new = "new_centers X L K"
  assume eq: "all_equal c ?new"
  from assms(1) have d: "0 < ncols X" and c: "c \<noteq> []"
    by (auto simp: pairwise_distances_argmin_Inr check_array_def)
  have nan: "?new ! k = replicate (ncols X) NaN"
    using assms(2,3) by (rule empty_cluster_NaN)
  have no: "\<not> row_eq r (?new ! k)" for r
    using d by (simp add: nan row_eq_NaN)
  have mem: "?new ! k \<in> set ?new"
    using assms(2) by (simp add: nth_mem)
  consider "length c = K" | "length c \<noteq> K" "length c = 1"
    | "length c \<noteq> K" "length c \<noteq> 1" "K = 1" | "length c \<noteq> K" "length c \<noteq> 1" "K \<noteq> 1"
    by blast
  then show False
  proof cases
    case 1
    then have "row_eq (c ! k) (?new ! k)"
      using eq assms(2) by (simp add: all_equal_def list_all2_conv_all_nth)
    then show False using no by blast
  next
    case 2
    then have "list_all (row_eq (hd c)) ?new"
      using eq by (simp add: all_equal_def)
    then show False using mem no by (auto simp: list_all_iff)
  next
    case 3
    then have k0: "k = 0" using assms(2) by simp
    from 3 eq have "list_all (\<lambda>r. row_eq r (hd ?new)) c"
      by (simp add: all_equal_def)
    then have "row_eq (hd c) (hd ?new)"
      using c by (auto simp: list_all_iff)
    moreover have "?new \<noteq> []" using 3 by (simp add: new_centers_def)
    then have "hd ?new = ?new ! k"
      unfolding k0 by (rule hd_conv_nth)
    ultimately show False using no by simp
  next
    case 4
    then show False using eq by (simp add: all_equal_def)
  qed
qed




lemma pass_centers_after_passes:
  "pass_centers t X K c = Some c' \<Longrightarrow> pass_centers (t + n) X K c = pass_centers n X K c'"
proof (induction t arbitrary: c)
  case 0
  then show ?case by simp
next
  case (Suc t)
  then show ?case
    by (auto simp: Let_def split: sum.splits if_splits)
qed

lemma find_clusters_after_passes:
  assumes "initial_centers permutation X K rseed = Inr c0"
    and "pass_centers t X K c0 = Some c"
  shows "find_clusters permutation (t + n) X K rseed = loop n X K c"
  using assms loop_after_passes [OF assms(2)] by (simp add: find_clusters_def)

lemma find_clusters_deterministic:
  assumes "find_clusters permutation n X K rseed = Some r"
    and "find_clusters permutation m X K rseed = Some r'"
  shows "r = r'"
proof (cases "initial_centers permutation X K rseed")
  case (Inl e)
  then show ?thesis using assms by (simp add: find_clusters_def)
next
  case (Inr c0)
  then show ?thesis using assms loop_deterministic by (simp add: find_clusters_def)
qed

lemma empty_cluster_rejected:
  assumes "k < K" and "k \<notin> set L" and "0 < ncols X"
  shows "pairwise_distances_argmin X (new_centers X L K) = Inl ValueError"
proof -
  let ?new = "new_centers X L K"
  have "?new ! k = replicate (ncols X) NaN" using assms(1,2) by (rule empty_cluster_NaN)
  then have v: "NaN \<in> set (?new ! k)" using assms(3) by simp
  have r: "?new ! k \<in> set ?new" using assms(1) by (simp add: nth_mem)
  have "\<not> check_array ?new" using r v by (rule nonfinite_not_checked) simp
  then show ?thesis by (simp add: pairwise_distances_argmin_def)
qed

lemma empty_cluster_pass:
  assumes "pairwise_distances_argmin X c = Inr L" and "k < K" and "k \<notin> set L"
  shows "pass_centers (Suc 0) X K c = Some (new_centers X L K)"
    and "loop (Suc (Suc m)) X K c = Some (Inl ValueError)"
proof -
  have ne: "\<not> all_equal c (new_centers X L K)"
    using assms by (rule empty_cluster_not_equal)
  from assms(1) have d: "0 < ncols X"
    by (auto simp: pairwise_distances_argmin_Inr check_array_def)
  show "pass_centers (Suc 0) X K c = Some (new_centers X L K)"
    using assms(1) ne by simp
  show "loop (Suc (Suc m)) X K c = Some (Inl ValueError)"
    using assms(1) ne empty_cluster_rejected [OF assms(2,3) d] by simp
qed

subsection \<open>Means of finite entries\<close>







subsection \<open>Sums of squared distances\<close>
















subsection \<open>The assignments of a run\<close>




subsection \<open>Strict descent and the end of the loop\<close>









lemmas run_defs =
  find_clusters_def initial_centers_def example_permutation_def
  index_rows_def pairwise_distances_argmin_def check_array_def ncols_def sqdist_def
  new_centers_def select_rows_def mean0_def mean_def fsum_def all_equal_def row_eq_def
  numeral_nat

section \<open>Initialisation\<close>

text \<open>
  C9. For \<open>K \<le> N\<close> the initial centres are the rows of \<open>X\<close> at the first \<open>K\<close> entries of
  the permutation that the seed gives: \<open>K\<close> positions of \<open>X\<close>, no position twice. They are
  a function of the seed (and of \<open>X\<close> and \<open>K\<close>) alone.
\<close>

theorem initial_centers_distinct_points:
  assumes "is_permutation (permutation rseed (length X)) (length X)"
    and "n_clusters \<le> length X"
  shows "initial_centers permutation X n_clusters rseed
           = Inr (map (\<lambda>j. X ! j) (take n_clusters (permutation rseed (length X))))
         \<and> length (take n_clusters (permutation rseed (length X))) = n_clusters
         \<and> distinct (take n_clusters (permutation rseed (length X)))
         \<and> (\<forall>j \<in> set (take n_clusters (permutation rseed (length X))). j < length X)"
proof -
  let ?p = "permutation rseed (length X)"
  have len: "length ?p = length X" using assms(1) by (rule is_permutation_length)
  have d: "distinct (take n_clusters ?p)"
    using assms(1) by (simp add: is_permutation_def)
  have b: "\<forall>j \<in> set (take n_clusters ?p). j < length X"
    using assms(1) is_permutation_bound in_set_takeD by fast
  show ?thesis
    using len d b assms(2) index_rows_permutation [OF assms(1)]
    by (simp add: initial_centers_def)
qed

theorem initial_centers_distinct_points_witness:
  "initial_centers example_permutation [[Fin 0], [Fin 2], [Fin 5]] 2 2 = Inr [[Fin 5], [Fin 2]]
   \<and> distinct (take 2 (example_permutation 2 3))"
proof -
  have p: "is_permutation (example_permutation 2 (length [[Fin 0], [Fin 2], [Fin 5]]))
             (length [[Fin 0], [Fin 2], [Fin 5]])"
    by (auto simp: is_permutation_def example_permutation_def)
  have k: "(2::nat) \<le> length [[Fin 0], [Fin 2], [Fin 5]]" by simp
  show ?thesis
    using initial_centers_distinct_points
      [where permutation = example_permutation and rseed = 2 and n_clusters = 2, OF p k]
    by (simp add: numeral_nat example_permutation_def)
qed

lemma ncols_rows:
  assumes "rectangular X" and "idx \<noteq> []" and "\<forall>j\<in>set idx. j < length X"
  shows "ncols (map (\<lambda>j. X ! j) idx) = ncols X"
proof -
  from assms(2) obtain j js where idx: "idx = j # js" by (cases idx) auto
  then have "X ! j \<in> set X" using assms(3) by simp
  then have "length (X ! j) = ncols X"
    using assms(1) by (auto simp: rectangular_def list_all_iff)
  then show ?thesis using idx by (simp add: ncols_def)
qed

lemma check_array_rows:
  assumes "check_array X" and "rectangular X" and "idx \<noteq> []"
    and "\<forall>j\<in>set idx. j < length X"
  shows "check_array (map (\<lambda>j. X ! j) idx)"
proof -
  have "list_all (list_all isfinite) (map (\<lambda>j. X ! j) idx)"
    using assms(1,4) by (auto simp: check_array_def list_all_iff)
  then show ?thesis
    using assms(1,3) ncols_rows [OF assms(2,3,4)] by (simp add: check_array_def)
qed

section \<open>Rejected input\<close>



section \<open>The returned result\<close>





section \<open>Empty clusters\<close>

text \<open>
  C10. When in some pass of a run a cluster index \<open>k\<close> has no point, the new centre of
  \<open>k\<close> is NaN in every entry (and there is at least one entry), the test
  \<^verbatim>\<open>np.all(centers == new_centers)\<close> of that pass is false, as it is in every pass whose
  new centres hold a NaN, and the run does not return a result, whatever the number of
  passes it is given.
\<close>

theorem empty_cluster_never_returns:
  assumes "initial_centers permutation X n_clusters rseed = Inr c0"
    and "pass_centers t X n_clusters c0 = Some centers"
    and "pairwise_distances_argmin X centers = Inr labels"
    and "k < n_clusters" and "k \<notin> set labels"
  shows "new_centers X labels n_clusters ! k = replicate (ncols X) NaN \<and> 0 < ncols X
    \<and> \<not> all_equal centers (new_centers X labels n_clusters)
    \<and> (\<forall>c r. c \<noteq> [] \<and> r \<in> set (new_centers X L n_clusters) \<and> NaN \<in> set r
            \<longrightarrow> \<not> all_equal c (new_centers X L n_clusters))
    \<and> find_clusters permutation fuel X n_clusters rseed \<noteq> Some (Inr result)"
proof -
  have nan: "new_centers X labels n_clusters ! k = replicate (ncols X) NaN"
    using assms(4,5) by (rule empty_cluster_NaN)
  from assms(3) have d: "0 < ncols X"
    by (auto simp: pairwise_distances_argmin_Inr check_array_def)
  have ne: "\<not> all_equal centers (new_centers X labels n_clusters)"
    using assms(3,4,5) by (rule empty_cluster_not_equal)
  have persist: "\<not> all_equal c (new_centers X L n_clusters)"
    if "c \<noteq> []" and "r \<in> set (new_centers X L n_clusters)" and "NaN \<in> set r" for c r
  proof
    let ?new = "new_centers X L n_clusters"
    assume eq: "all_equal c ?new"
    have no: "\<not> row_eq s r" for s
      using that(3) by (auto simp: row_eq_def list_all2_conv_all_nth in_set_conv_nth feq_NaN_right)
    from that(2) obtain i where i: "i < n_clusters" "?new ! i = r"
      by (auto simp: in_set_conv_nth)
    consider "length c = n_clusters" | "length c \<noteq> n_clusters" "length c = 1"
      | "length c \<noteq> n_clusters" "length c \<noteq> 1" "n_clusters = 1"
      | "length c \<noteq> n_clusters" "length c \<noteq> 1" "n_clusters \<noteq> 1"
      by blast
    then show False
    proof cases
      case 1
      then have "row_eq (c ! i) (?new ! i)"
        using eq i(1) by (simp add: all_equal_def list_all2_conv_all_nth)
      then show False using no i(2) by simp
    next
      case 2
      then have "list_all (row_eq (hd c)) ?new" using eq by (simp add: all_equal_def)
      then show False using that(2) no by (auto simp: list_all_iff)
    next
      case 3
      then have "list_all (\<lambda>s. row_eq s (hd ?new)) c" using eq by (simp add: all_equal_def)
      then have "row_eq (hd c) (hd ?new)" using that(1) by (auto simp: list_all_iff)
      moreover have "?new \<noteq> []" using 3 by (simp add: new_centers_def)
      then have "hd ?new = ?new ! 0" by (rule hd_conv_nth)
      ultimately show False using no i 3 by simp
    next
      case 4
      then show False using eq by (simp add: all_equal_def)
    qed
  qed
  have "find_clusters permutation (t + Suc (Suc 0)) X n_clusters rseed
          = loop (Suc (Suc 0)) X n_clusters centers"
    using assms(1,2) by (rule find_clusters_after_passes)
  also have "\<dots> = Some (Inl ValueError)"
    using assms(3,4,5) by (rule empty_cluster_pass(2))
  finally have "find_clusters permutation fuel X n_clusters rseed \<noteq> Some (Inr result)"
    using find_clusters_deterministic by blast
  then show ?thesis using nan d ne persist by blast
qed

text \<open>Five points of the plane, no two equal, and three clusters: the second pass
  leaves cluster 0 without a point.\<close>

lemma five_points_second_pass:
  "initial_centers example_permutation
       [[Fin 4, Fin 5], [Fin 4, Fin 0], [Fin 6, Fin 1], [Fin 1, Fin 7], [Fin 6, Fin 0]] 3 2
     = Inr [[Fin 6, Fin 1], [Fin 6, Fin 0], [Fin 4, Fin 0]]"
  "pass_centers (Suc 0)
       [[Fin 4, Fin 5], [Fin 4, Fin 0], [Fin 6, Fin 1], [Fin 1, Fin 7], [Fin 6, Fin 0]] 3
       [[Fin 6, Fin 1], [Fin 6, Fin 0], [Fin 4, Fin 0]]
     = Some [[Fin 5, Fin 3], [Fin 6, Fin 0], [Fin (5 / 2), Fin (7 / 2)]]"
  "pairwise_distances_argmin
       [[Fin 4, Fin 5], [Fin 4, Fin 0], [Fin 6, Fin 1], [Fin 1, Fin 7], [Fin 6, Fin 0]]
       [[Fin 5, Fin 3], [Fin 6, Fin 0], [Fin (5 / 2), Fin (7 / 2)]]
     = Inr [2, 1, 1, 2, 1]"
  by (simp_all add: run_defs power2_eq_square)

theorem empty_cluster_never_returns_witness:
  "new_centers [[Fin 4, Fin 5], [Fin 4, Fin 0], [Fin 6, Fin 1], [Fin 1, Fin 7], [Fin 6, Fin 0]]
       [2, 1, 1, 2, 1] 3 ! 0 = [NaN, NaN]
   \<and> \<not> all_equal [[Fin 5, Fin 3], [Fin 6, Fin 0], [Fin (5 / 2), Fin (7 / 2)]]
        (new_centers
          [[Fin 4, Fin 5], [Fin 4, Fin 0], [Fin 6, Fin 1], [Fin 1, Fin 7], [Fin 6, Fin 0]]
          [2, 1, 1, 2, 1] 3)
   \<and> find_clusters example_permutation 9
        [[Fin 4, Fin 5], [Fin 4, Fin 0], [Fin 6, Fin 1], [Fin 1, Fin 7], [Fin 6, Fin 0]] 3 2
      \<noteq> Some (Inr ([[Fin 5, Fin 3], [Fin 6, Fin 0], [Fin (5 / 2), Fin (7 / 2)]],
                     [2, 1, 1, 2, 1]))"
proof -
  let ?X = "[[Fin 4, Fin 5], [Fin 4, Fin 0], [Fin 6, Fin 1], [Fin 1, Fin 7], [Fin 6, Fin 0]]"
  have k: "(0::nat) < 3" by simp
  have e: "(0::nat) \<notin> set [2, 1, 1, 2, 1]" by simp
  note w = empty_cluster_never_returns
    [where permutation = example_permutation and fuel = 9
       and result = "([[Fin 5, Fin 3], [Fin 6, Fin 0], [Fin (5 / 2), Fin (7 / 2)]],
                      [2, 1, 1, 2, 1])",
     OF five_points_second_pass k e]
  have "ncols ?X = 2" by (simp add: ncols_def)
  then show ?thesis using w by (simp add: numeral_2_eq_2)
qed

text \<open>
  C3, as the code has it. There is no condition of its own for an empty cluster and no
  recovery: when in some pass of a run a cluster index \<open>k\<close> has no point, its new centre
  is NaN in every entry, the new centres are the centres of the next pass, and there the
  validation of the library call raises \<^verbatim>\<open>ValueError\<close>, with which the run ends; no
  result is returned.
\<close>

theorem empty_cluster_ValueError:
  assumes "initial_centers permutation X n_clusters rseed = Inr c0"
    and "pass_centers t X n_clusters c0 = Some centers"
    and "pairwise_distances_argmin X centers = Inr labels"
    and "k < n_clusters" and "k \<notin> set labels"
  shows "pass_centers (Suc t) X n_clusters c0 = Some (new_centers X labels n_clusters)
    \<and> new_centers X labels n_clusters ! k = replicate (ncols X) NaN
    \<and> pairwise_distances_argmin X (new_centers X labels n_clusters) = Inl ValueError
    \<and> find_clusters permutation (Suc (Suc (t + fuel))) X n_clusters rseed
        = Some (Inl ValueError)"
proof -
  let ?new = "new_centers X labels n_clusters"
  from assms(3) have d: "0 < ncols X"
    by (auto simp: pairwise_distances_argmin_Inr check_array_def)
  have "pass_centers (t + Suc 0) X n_clusters c0 = pass_centers (Suc 0) X n_clusters centers"
    using assms(2) by (rule pass_centers_after_passes)
  also have "\<dots> = Some ?new"
    using assms(3,4,5) by (rule empty_cluster_pass(1))
  finally have carried: "pass_centers (Suc t) X n_clusters c0 = Some ?new" by simp
  have nan: "?new ! k = replicate (ncols X) NaN"
    using assms(4,5) by (rule empty_cluster_NaN)
  have rejected: "pairwise_distances_argmin X ?new = Inl ValueError"
    using assms(4,5) d by (rule empty_cluster_rejected)
  have "find_clusters permutation (t + Suc (Suc fuel)) X n_clusters rseed
          = loop (Suc (Suc fuel)) X n_clusters centers"
    using assms(1,2) by (rule find_clusters_after_passes)
  also have "\<dots> = Some (Inl ValueError)"
    using assms(3,4,5) by (rule empty_cluster_pass(2))
  finally have "find_clusters permutation (Suc (Suc (t + fuel))) X n_clusters rseed
          = Some (Inl ValueError)" by simp
  then show ?thesis using carried nan rejected by blast
qed

theorem empty_cluster_ValueError_witness:
  "pass_centers (Suc (Suc 0))
       [[Fin 4, Fin 5], [Fin 4, Fin 0], [Fin 6, Fin 1], [Fin 1, Fin 7], [Fin 6, Fin 0]] 3
       [[Fin 6, Fin 1], [Fin 6, Fin 0], [Fin 4, Fin 0]]
     = Some (new_centers
         [[Fin 4, Fin 5], [Fin 4, Fin 0], [Fin 6, Fin 1], [Fin 1, Fin 7], [Fin 6, Fin 0]]
         [2, 1, 1, 2, 1] 3)
   \<and> find_clusters example_permutation (Suc (Suc (Suc 0 + 4)))
        [[Fin 4, Fin 5], [Fin 4, Fin 0], [Fin 6, Fin 1], [Fin 1, Fin 7], [Fin 6, Fin 0]] 3 2
      = Some (Inl ValueError)"
proof -
  have k: "(0::nat) < 3" by simp
  have e: "(0::nat) \<notin> set [2, 1, 1, 2, 1]" by simp
  show ?thesis
    using empty_cluster_ValueError
      [where permutation = example_permutation and fuel = 4, OF five_points_second_pass k e]
    by blast
qed

text \<open>The claim as the specification states it fails on these five points with the default
  seed: the NaN centre of cluster 0 is computed, becomes a centre of the third pass, and
  the run ends with the error of the library's validation.\<close>

theorem empty_cluster_counterexample:
  "pass_centers 2
       [[Fin 4, Fin 5], [Fin 4, Fin 0], [Fin 6, Fin 1], [Fin 1, Fin 7], [Fin 6, Fin 0]] 3
       [[Fin 6, Fin 1], [Fin 6, Fin 0], [Fin 4, Fin 0]]
     = Some [[NaN, NaN], [Fin (16 / 3), Fin (1 / 3)], [Fin (5 / 2), Fin 6]]
   \<and> find_clusters example_permutation 3
        [[Fin 4, Fin 5], [Fin 4, Fin 0], [Fin 6, Fin 1], [Fin 1, Fin 7], [Fin 6, Fin 0]] 3 2
      = Some (Inl ValueError)"
  by (simp add: run_defs power2_eq_square)

section \<open>More clusters than points\<close>

text \<open>
  C5, as the code has it. The number of clusters is not compared with the number of
  points. For a valid array of \<open>N\<close> points and \<open>n_clusters > N\<close> the initial centres are
  all \<open>N\<close> points, the first assignment succeeds, and the run ends with the
  \<^verbatim>\<open>ValueError\<close> of the library (raised for the NaN centres of the clusters that have no
  point) once it is given two passes.
\<close>

theorem more_clusters_than_points:
  assumes "check_array X" and "rectangular X"
    and "is_permutation (permutation rseed (length X)) (length X)"
    and "length X < n_clusters"
  shows "initial_centers permutation X n_clusters rseed
           = Inr (map (\<lambda>j. X ! j) (permutation rseed (length X)))
    \<and> pairwise_distances_argmin X (map (\<lambda>j. X ! j) (permutation rseed (length X)))
           = Inr (map (\<lambda>x. argmin (map (sqdist x)
                    (map (\<lambda>j. X ! j) (permutation rseed (length X))))) X)
    \<and> find_clusters permutation (Suc (Suc fuel)) X n_clusters rseed = Some (Inl ValueError)"
proof -
  let ?p = "permutation rseed (length X)"
  let ?c0 = "map (\<lambda>j. X ! j) ?p"
  let ?L = "map (\<lambda>x. argmin (map (sqdist x) ?c0)) X"
  have len: "length ?p = length X" using assms(3) by (rule is_permutation_length)
  then have tk: "take n_clusters ?p = ?p" using assms(4) by simp
  have init: "initial_centers permutation X n_clusters rseed = Inr ?c0"
    using index_rows_permutation [OF assms(3), of n_clusters] tk
    by (simp add: initial_centers_def)
  from assms(1) have "X \<noteq> []" by (simp add: check_array_def)
  then have ne: "?p \<noteq> []" using len by auto
  have b: "\<forall>j\<in>set ?p. j < length X" using assms(3) is_permutation_bound by blast
  have pda: "pairwise_distances_argmin X ?c0 = Inr ?L"
    using assms(1) check_array_rows [OF assms(1,2) ne b] ncols_rows [OF assms(2) ne b]
    by (simp add: pairwise_distances_argmin_def)
  have k: "length X \<notin> set ?L" using labels_bound [OF pda] len by fastforce
  have "loop (Suc (Suc fuel)) X n_clusters ?c0 = Some (Inl ValueError)"
    using pda assms(4) k by (rule empty_cluster_pass(2))
  then have "find_clusters permutation (Suc (Suc fuel)) X n_clusters rseed
               = Some (Inl ValueError)"
    using init by (simp add: find_clusters_def)
  then show ?thesis using init pda by blast
qed

theorem more_clusters_than_points_witness:
  "initial_centers example_permutation [[Fin 1], [Fin 4]] 3 2 = Inr [[Fin 4], [Fin 1]]
   \<and> find_clusters example_permutation (Suc (Suc 0)) [[Fin 1], [Fin 4]] 3 2
       = Some (Inl ValueError)"
proof -
  let ?X = "[[Fin 1], [Fin 4]]"
  have c: "check_array ?X" by (simp add: check_array_def ncols_def)
  have r: "rectangular ?X" by (simp add: rectangular_def ncols_def)
  have p: "is_permutation (example_permutation 2 (length ?X)) (length ?X)"
    by (auto simp: is_permutation_def example_permutation_def)
  have k: "length ?X < 3" by simp
  show ?thesis
    using more_clusters_than_points
      [where permutation = example_permutation and rseed = 2 and fuel = 0, OF c r p k]
    by (simp add: example_permutation_def numeral_nat)
qed

text \<open>The specification's example, five points and seven clusters, with the default seed:
  nothing fails before the loop; the first pass assigns every point and computes seven
  centres, two of them NaN; the error comes after it.\<close>

theorem more_clusters_than_points_counterexample:
  "initial_centers example_permutation [[Fin 0], [Fin 1], [Fin 2], [Fin 3], [Fin 4]] 7 2
     = Inr [[Fin 2], [Fin 4], [Fin 1], [Fin 3], [Fin 0]]
   \<and> pairwise_distances_argmin [[Fin 0], [Fin 1], [Fin 2], [Fin 3], [Fin 4]]
        [[Fin 2], [Fin 4], [Fin 1], [Fin 3], [Fin 0]] = Inr [4, 2, 0, 3, 1]
   \<and> new_centers [[Fin 0], [Fin 1], [Fin 2], [Fin 3], [Fin 4]] [4, 2, 0, 3, 1] 7
       = [[Fin 2], [Fin 4], [Fin 1], [Fin 3], [Fin 0], [NaN], [NaN]]
   \<and> find_clusters example_permutation 2 [[Fin 0], [Fin 1], [Fin 2], [Fin 3], [Fin 4]] 7 2
       = Some (Inl ValueError)"
  by (simp add: run_defs power2_eq_square)

section \<open>One cluster\<close>








section \<open>The objective\<close>





section \<open>The end of a run\<close>




end
